theory Spec2Isabelle
  imports Main "HOL-Library.Word"
begin

unbundle bit_operations_syntax

section \<open>Bytes, strings and errors\<close>

text \<open>
  A Go \<^verbatim>\<open>byte\<close> is an 8-bit word. A Go \<^verbatim>\<open>string\<close> is a sequence of bytes; it is
  modelled as a HOL \<^typ>\<open>string\<close>, whose characters are the 256 byte values, and
  \<open>len(s)\<close> is \<^term>\<open>length s\<close>.
\<close>

type_synonym byte = "8 word"

definition byte_of_char :: "char \<Rightarrow> byte" where
  "byte_of_char c = word_of_nat (of_char c)"

definition char_of_byte :: "byte \<Rightarrow> char" where
  "char_of_byte b = char_of (unat b)"

text \<open>
  Errors are values. \<open>Errorf\<close> and \<open>Wrap\<close> are the constructors of
  \<^verbatim>\<open>github.com/pkg/errors\<close>; the format string is kept as written in the source and
  its arguments are dropped. \<open>EOF\<close> is what a reader returns when fewer bytes are
  left than were asked for, \<open>ErrInvalidUnreadByte\<close> is \<^verbatim>\<open>bufio\<close>'s error,
  \<open>ErrShortWrite\<close> is a failure of the destination writer, and \<open>Panic\<close> is a
  run-time panic (raised by \<^verbatim>\<open>reflect\<close> or by a failed type assertion), which is
  not an error return of the source but ends the call all the same.
\<close>

datatype error =
    EOF
  | ErrInvalidUnreadByte
  | ErrShortWrite
  | Errorf string
  | Wrap error string
  | InvalidDecodeError
  | Panic string

text \<open>
  \<^verbatim>\<open>errors.Wrapf(err, format, ...)\<close> of \<^verbatim>\<open>github.com/pkg/errors\<close>: it annotates
  \<open>err\<close>, and returns \<open>nil\<close> when \<open>err\<close> is \<open>nil\<close>. An \<^verbatim>\<open>error\<close> variable is an
  \<^typ>\<open>error option\<close>, \<open>None\<close> being \<open>nil\<close>.
\<close>

definition Wrapf :: "error option \<Rightarrow> string \<Rightarrow> error option" where
  "Wrapf err msg = (case err of None \<Rightarrow> None | Some e \<Rightarrow> Some (Wrap e msg))"

section \<open>The tag catalogue\<close>

type_synonym Code = byte

named_theorems Code_defs

text \<open>
  Modelled from the spec: the constants of type \<open>Code\<close> are declared in a file that is
  not among the sources. Their values are those of section 3 of the specification
  (the MessagePack format bytes). \<open>Nil\<close>, \<open>True\<close> and \<open>False\<close> carry a suffix
  because HOL has constants of these names.
\<close>

definition Nil_code :: Code where [Code_defs]: "Nil_code = 0xc0"
definition False_code :: Code where [Code_defs]: "False_code = 0xc2"
definition True_code :: Code where [Code_defs]: "True_code = 0xc3"
definition Bin8 :: Code where [Code_defs]: "Bin8 = 0xc4"
definition Bin16 :: Code where [Code_defs]: "Bin16 = 0xc5"
definition Bin32 :: Code where [Code_defs]: "Bin32 = 0xc6"
definition Ext8 :: Code where [Code_defs]: "Ext8 = 0xc7"
definition Ext16 :: Code where [Code_defs]: "Ext16 = 0xc8"
definition Ext32 :: Code where [Code_defs]: "Ext32 = 0xc9"
definition Float :: Code where [Code_defs]: "Float = 0xca"
definition Double :: Code where [Code_defs]: "Double = 0xcb"
definition Uint8 :: Code where [Code_defs]: "Uint8 = 0xcc"
definition Uint16 :: Code where [Code_defs]: "Uint16 = 0xcd"
definition Uint32 :: Code where [Code_defs]: "Uint32 = 0xce"
definition Uint64 :: Code where [Code_defs]: "Uint64 = 0xcf"
definition Int8 :: Code where [Code_defs]: "Int8 = 0xd0"
definition Int16 :: Code where [Code_defs]: "Int16 = 0xd1"
definition Int32 :: Code where [Code_defs]: "Int32 = 0xd2"
definition Int64 :: Code where [Code_defs]: "Int64 = 0xd3"
definition FixExt1 :: Code where [Code_defs]: "FixExt1 = 0xd4"
definition FixExt2 :: Code where [Code_defs]: "FixExt2 = 0xd5"
definition FixExt4 :: Code where [Code_defs]: "FixExt4 = 0xd6"
definition FixExt8 :: Code where [Code_defs]: "FixExt8 = 0xd7"
definition FixExt16 :: Code where [Code_defs]: "FixExt16 = 0xd8"
definition Str8 :: Code where [Code_defs]: "Str8 = 0xd9"
definition Str16 :: Code where [Code_defs]: "Str16 = 0xda"
definition Str32 :: Code where [Code_defs]: "Str32 = 0xdb"
definition Array16 :: Code where [Code_defs]: "Array16 = 0xdc"
definition Array32 :: Code where [Code_defs]: "Array32 = 0xdd"
definition Map16 :: Code where [Code_defs]: "Map16 = 0xde"
definition Map32 :: Code where [Code_defs]: "Map32 = 0xdf"
definition FixMap0 :: Code where [Code_defs]: "FixMap0 = 0x80"
definition FixMap15 :: Code where [Code_defs]: "FixMap15 = 0x8f"
definition FixArray0 :: Code where [Code_defs]: "FixArray0 = 0x90"
definition FixArray15 :: Code where [Code_defs]: "FixArray15 = 0x9f"
definition FixStr0 :: Code where [Code_defs]: "FixStr0 = 0xa0"

text \<open>
  Modelled from the spec: \<open>IsMapFamily\<close> is declared with the constants. Section 4.1
  of the specification names it \<open>is_in_map_family\<close>: the tag is a FixMap tag, Map16 or
  Map32.
\<close>

definition IsMapFamily :: "Code \<Rightarrow> bool" where
  "IsMapFamily c = ((FixMap0 \<le> c \<and> c \<le> FixMap15) \<or> c = Map16 \<or> c = Map32)"

section \<open>The writer\<close>

text \<open>
  Modelled from the spec: the \<open>Writer\<close> interface and \<open>NewWriter\<close> are not among the
  sources. Section 4.2 of the specification gives the operations: every number is
  written big-endian, \<open>WriteByteUintN\<close> writes a tag and a number in one call, and
  every operation may fail with an I/O error. The destination is the sequence of
  bytes written so far and the room that is left (\<open>None\<close> for a destination that
  never fails, such as a memory buffer); a write that does not fit fails and writes
  nothing.
\<close>

record Writer =
  w_out :: "byte list"
  w_room :: "nat option"

definition Write :: "byte list \<Rightarrow> Writer \<Rightarrow> error + Writer" where
  "Write bs w =
     (case w_room w of
        None \<Rightarrow> Inr (w\<lparr>w_out := w_out w @ bs\<rparr>)
      | Some k \<Rightarrow>
          if length bs \<le> k
          then Inr (w\<lparr>w_out := w_out w @ bs, w_room := Some (k - length bs)\<rparr>)
          else Inl ErrShortWrite)"

definition be16 :: "16 word \<Rightarrow> byte list" where
  "be16 n = [ucast (drop_bit 8 n), ucast n]"

definition be32 :: "32 word \<Rightarrow> byte list" where
  "be32 n = [ucast (drop_bit 24 n), ucast (drop_bit 16 n), ucast (drop_bit 8 n), ucast n]"

definition be64 :: "64 word \<Rightarrow> byte list" where
  "be64 n = [ucast (drop_bit 56 n), ucast (drop_bit 48 n), ucast (drop_bit 40 n),
             ucast (drop_bit 32 n), ucast (drop_bit 24 n), ucast (drop_bit 16 n),
             ucast (drop_bit 8 n), ucast n]"

definition WriteByte :: "byte \<Rightarrow> Writer \<Rightarrow> error + Writer" where
  "WriteByte b = Write [b]"

definition WriteUint8 :: "8 word \<Rightarrow> Writer \<Rightarrow> error + Writer" where
  "WriteUint8 n = Write [n]"

definition WriteUint16 :: "16 word \<Rightarrow> Writer \<Rightarrow> error + Writer" where
  "WriteUint16 n = Write (be16 n)"

definition WriteUint32 :: "32 word \<Rightarrow> Writer \<Rightarrow> error + Writer" where
  "WriteUint32 n = Write (be32 n)"

definition WriteUint64 :: "64 word \<Rightarrow> Writer \<Rightarrow> error + Writer" where
  "WriteUint64 n = Write (be64 n)"

definition WriteByteUint8 :: "byte \<Rightarrow> 8 word \<Rightarrow> Writer \<Rightarrow> error + Writer" where
  "WriteByteUint8 b n = Write [b, n]"

definition WriteByteUint16 :: "byte \<Rightarrow> 16 word \<Rightarrow> Writer \<Rightarrow> error + Writer" where
  "WriteByteUint16 b n = Write (b # be16 n)"

definition WriteByteUint32 :: "byte \<Rightarrow> 32 word \<Rightarrow> Writer \<Rightarrow> error + Writer" where
  "WriteByteUint32 b n = Write (b # be32 n)"

definition WriteByteUint64 :: "byte \<Rightarrow> 64 word \<Rightarrow> Writer \<Rightarrow> error + Writer" where
  "WriteByteUint64 b n = Write (b # be64 n)"

definition WriteString :: "string \<Rightarrow> Writer \<Rightarrow> error + Writer" where
  "WriteString s = Write (map byte_of_char s)"

text \<open>
  A call whose returned error the source drops: the writer goes on from the state
  the call left, whether it failed or not.
\<close>

definition discard_err :: "(Writer \<Rightarrow> error + Writer) \<Rightarrow> Writer \<Rightarrow> Writer" where
  "discard_err f w = (case f w of Inl _ \<Rightarrow> w | Inr w' \<Rightarrow> w')"

section \<open>Scalar encoders\<close>

text \<open>
  An \<open>Encoder\<close> holds its destination \<open>dst\<close> and nothing else, so each method takes
  the writer and returns the error or the writer after the call.
\<close>

definition EncodeNil :: "Writer \<Rightarrow> error + Writer" where
  "EncodeNil w = WriteByte Nil_code w"

definition EncodeBool :: "bool \<Rightarrow> Writer \<Rightarrow> error + Writer" where
  "EncodeBool b w = (let code = (if b then True_code else False_code) in WriteByte code w)"

definition EncodeFloat32 :: "32 word \<Rightarrow> Writer \<Rightarrow> error + Writer" where
  "EncodeFloat32 f w =
     (case WriteByteUint32 Float f w of
        Inl err \<Rightarrow> Inl (Wrap err ''msgpack: failed to write Float'')
      | Inr w' \<Rightarrow> Inr w')"

definition EncodeFloat64 :: "64 word \<Rightarrow> Writer \<Rightarrow> error + Writer" where
  "EncodeFloat64 f w =
     (case WriteByteUint64 Double f w of
        Inl err \<Rightarrow> Inl (Wrap err ''msgpack: failed to write Double'')
      | Inr w' \<Rightarrow> Inr w')"

definition EncodeUint8 :: "8 word \<Rightarrow> Writer \<Rightarrow> error + Writer" where
  "EncodeUint8 i w =
     (case WriteByteUint8 Uint8 i w of
        Inl err \<Rightarrow> Inl (Wrap err ''msgpack: failed to write Uint8'')
      | Inr w' \<Rightarrow> Inr w')"

definition EncodeUint16 :: "16 word \<Rightarrow> Writer \<Rightarrow> error + Writer" where
  "EncodeUint16 i w =
     (case WriteByteUint16 Uint16 i w of
        Inl err \<Rightarrow> Inl (Wrap err ''msgpack: failed to write Uint16'')
      | Inr w' \<Rightarrow> Inr w')"

definition EncodeUint32 :: "32 word \<Rightarrow> Writer \<Rightarrow> error + Writer" where
  "EncodeUint32 i w =
     (case WriteByteUint32 Uint32 i w of
        Inl err \<Rightarrow> Inl (Wrap err ''msgpack: failed to write Uint32'')
      | Inr w' \<Rightarrow> Inr w')"

definition EncodeUint64 :: "64 word \<Rightarrow> Writer \<Rightarrow> error + Writer" where
  "EncodeUint64 i w =
     (case WriteByteUint64 Uint64 i w of
        Inl err \<Rightarrow> Inl (Wrap err ''msgpack: failed to write Uint64'')
      | Inr w' \<Rightarrow> Inr w')"

text \<open>
  The signed encoders cast to the unsigned type of the same width, which keeps the
  bit pattern; a signed integer is carried as the word of its two's complement.
\<close>

definition EncodeInt8 :: "8 word \<Rightarrow> Writer \<Rightarrow> error + Writer" where
  "EncodeInt8 i w =
     (case WriteByteUint8 Int8 i w of
        Inl err \<Rightarrow> Inl (Wrap err ''msgpack: failed to write Int8'')
      | Inr w' \<Rightarrow> Inr w')"

definition EncodeInt16 :: "16 word \<Rightarrow> Writer \<Rightarrow> error + Writer" where
  "EncodeInt16 i w =
     (case WriteByteUint16 Int16 i w of
        Inl err \<Rightarrow> Inl (Wrap err ''msgpack: failed to write Int16'')
      | Inr w' \<Rightarrow> Inr w')"

definition EncodeInt32 :: "32 word \<Rightarrow> Writer \<Rightarrow> error + Writer" where
  "EncodeInt32 i w =
     (case WriteByteUint32 Int32 i w of
        Inl err \<Rightarrow> Inl (Wrap err ''msgpack: failed to write Int32'')
      | Inr w' \<Rightarrow> Inr w')"

definition EncodeInt64 :: "64 word \<Rightarrow> Writer \<Rightarrow> error + Writer" where
  "EncodeInt64 i w =
     (case WriteByteUint64 Int64 i w of
        Inl err \<Rightarrow> Inl (Wrap err ''msgpack: failed to write Int64'')
      | Inr w' \<Rightarrow> Inr w')"

text \<open>
  \<open>writePreamble\<close>: the tag, then the length in \<open>w\<close> bytes. A width other than 1, 2
  or 4 writes the tag alone.
\<close>

definition writePreamble :: "Code \<Rightarrow> nat \<Rightarrow> nat \<Rightarrow> Writer \<Rightarrow> error + Writer" where
  "writePreamble code wd l w =
     (case WriteByte code w of
        Inl err \<Rightarrow> Inl (Wrap err ''msgpack: failed to write code'')
      | Inr w1 \<Rightarrow>
          if wd = 1 then
            (case WriteUint8 (of_nat l) w1 of
               Inl err \<Rightarrow> Inl (Wrap err ''msgpack: failed to write length'')
             | Inr w2 \<Rightarrow> Inr w2)
          else if wd = 2 then
            (case WriteUint16 (of_nat l) w1 of
               Inl err \<Rightarrow> Inl (Wrap err ''msgpack: failed to write length'')
             | Inr w2 \<Rightarrow> Inr w2)
          else if wd = 4 then
            (case WriteUint32 (of_nat l) w1 of
               Inl err \<Rightarrow> Inl (Wrap err ''msgpack: failed to write length'')
             | Inr w2 \<Rightarrow> Inr w2)
          else Inr w1)"

text \<open>
  \<open>EncodeBytes\<close> drops the error of the final \<open>Write\<close>. The lengths are Go \<open>int\<close>s
  of 64 bits, so every comparison with \<open>math.MaxUint32\<close> is exact.
\<close>

definition EncodeBytes :: "byte list \<Rightarrow> Writer \<Rightarrow> error + Writer" where
  "EncodeBytes b w =
     (let l = length b in
      if l \<le> 255 then
        (case writePreamble Bin8 1 l w of
           Inl err \<Rightarrow> Inl (Wrap err ''msgpack: failed to write []byte preamble'')
         | Inr w1 \<Rightarrow> Inr (discard_err (Write b) w1))
      else if l \<le> 65535 then
        (case writePreamble Bin16 2 l w of
           Inl err \<Rightarrow> Inl (Wrap err ''msgpack: failed to write []byte preamble'')
         | Inr w1 \<Rightarrow> Inr (discard_err (Write b) w1))
      else if l \<le> 4294967295 then
        (case writePreamble Bin32 4 l w of
           Inl err \<Rightarrow> Inl (Wrap err ''msgpack: failed to write []byte preamble'')
         | Inr w1 \<Rightarrow> Inr (discard_err (Write b) w1))
      else Inl (Errorf ''msgpack: string is too long (len=%d)''))"

text \<open>
  \<open>EncodeString\<close> checks none of its writes: only the length can make it fail.
\<close>

definition EncodeString :: "string \<Rightarrow> Writer \<Rightarrow> error + Writer" where
  "EncodeString s w =
     (let l = length s in
      if l < 32 then
        Inr (discard_err (WriteString s)
              (discard_err (WriteByte (FixStr0 OR of_nat l)) w))
      else if l \<le> 255 then
        Inr (discard_err (WriteString s)
              (discard_err (WriteUint8 (of_nat l))
                (discard_err (WriteByte Str8) w)))
      else if l \<le> 65535 then
        Inr (discard_err (WriteString s)
              (discard_err (WriteUint16 (of_nat l))
                (discard_err (WriteByte Str16) w)))
      else if l \<le> 4294967295 then
        Inr (discard_err (WriteString s)
              (discard_err (WriteUint32 (of_nat l))
                (discard_err (WriteByte Str32) w)))
      else Inl (Errorf ''msgpack: string is too long (len=%d)''))"

section \<open>The extension encoder\<close>

text \<open>
  \<open>EncodeExt typ v\<close> first runs the user's \<open>v.EncodeMsgpackExt\<close> on a writer over a
  fresh scratch buffer. What that call leaves is its error or the payload it wrote;
  this outcome is the argument \<open>user\<close>. \<open>typ\<close> is a Go \<open>int\<close>, and \<open>byte(typ)\<close>
  keeps its low eight bits.
\<close>

definition EncodeExt :: "int \<Rightarrow> error + byte list \<Rightarrow> Writer \<Rightarrow> error + Writer" where
  "EncodeExt typ user w =
     (case user of
        Inl err \<Rightarrow> Inl (Wrap err ''msgpack: failed during call to EncodeMsgpackExt for %s'')
      | Inr buf \<Rightarrow>
          (let l = length buf;
               header =
                 (if l = 1 then
                    (case WriteByte FixExt1 w of
                       Inl err \<Rightarrow> Inl (Wrap err ''msgpack: failed to write fixext1 code'')
                     | Inr w1 \<Rightarrow> Inr w1)
                  else if l = 2 then
                    (case WriteByte FixExt2 w of
                       Inl err \<Rightarrow> Inl (Wrap err ''msgpack: failed to write fixext2 code'')
                     | Inr w1 \<Rightarrow> Inr w1)
                  else if l = 4 then
                    (case WriteByte FixExt4 w of
                       Inl err \<Rightarrow> Inl (Wrap err ''msgpack: failed to write fixext4 code'')
                     | Inr w1 \<Rightarrow> Inr w1)
                  else if l = 8 then
                    (case WriteByte FixExt8 w of
                       Inl err \<Rightarrow> Inl (Wrap err ''msgpack: failed to write fixext8 code'')
                     | Inr w1 \<Rightarrow> Inr w1)
                  else if l = 16 then
                    (case WriteByte FixExt16 w of
                       Inl err \<Rightarrow> Inl (Wrap err ''msgpack: failed to write fixext16 code'')
                     | Inr w1 \<Rightarrow> Inr w1)
                  else if l \<le> 255 then
                    (case WriteByte Ext8 w of
                       Inl err \<Rightarrow> Inl (Wrap err ''msgpack: failed to write ext8 code'')
                     | Inr w1 \<Rightarrow>
                         (case WriteByte (of_nat l) w1 of
                            Inl err \<Rightarrow>
                              Inl (Wrap err ''msgpack: failed to write ext8 payload length'')
                          | Inr w2 \<Rightarrow> Inr w2))
                  else if l \<le> 65535 then
                    (case WriteByte Ext16 w of
                       Inl err \<Rightarrow> Inl (Wrap err ''msgpack: failed to write ext16 code'')
                     | Inr w1 \<Rightarrow>
                         (case WriteUint16 (of_nat l) w1 of
                            Inl err \<Rightarrow>
                              Inl (Wrap err ''msgpack: failed to write ext16 payload length'')
                          | Inr w2 \<Rightarrow> Inr w2))
                  else if l \<le> 4294967295 then
                    (case WriteByte Ext32 w of
                       Inl err \<Rightarrow> Inl (Wrap err ''msgpack: failed to write ext32 code'')
                     | Inr w1 \<Rightarrow>
                         (case WriteUint32 (of_nat l) w1 of
                            Inl err \<Rightarrow>
                              Inl (Wrap err ''msgpack: failed to write ext32 payload length'')
                          | Inr w2 \<Rightarrow> Inr w2))
                  else Inl (Errorf ''msgpack: extension payload too large: %d bytes''))
           in case header of
                Inl err \<Rightarrow> Inl err
              | Inr w2 \<Rightarrow>
                  (case WriteByte (word_of_int typ) w2 of
                     Inl err \<Rightarrow> Inl (Wrap err ''msgpack: failed to write typ code'')
                   | Inr w3 \<Rightarrow>
                       (case Write buf w3 of
                          Inl err \<Rightarrow> Inl (Wrap err ''msgpack: failed to write extention payload'')
                        | Inr w4 \<Rightarrow> Inr w4))))"

section \<open>The buffered reader of the decoder\<close>

text \<open>
  A \<open>Decoder\<close> holds a \<^verbatim>\<open>bufio.Reader\<close> over the input. Its state is the bytes not yet
  read and the byte that \<open>UnreadByte\<close> would put back: \<open>ReadByte\<close> remembers the byte
  it returns, and \<open>UnreadByte\<close> fails unless the last operation was a read.
\<close>

record Decoder =
  r_buf :: "byte list"
  r_lastByte :: "byte option"

definition ReadByte :: "Decoder \<Rightarrow> error + (byte \<times> Decoder)" where
  "ReadByte d =
     (case r_buf d of
        [] \<Rightarrow> Inl EOF
      | b # bs \<Rightarrow> Inr (b, d\<lparr>r_buf := bs, r_lastByte := Some b\<rparr>))"

definition UnreadByte :: "Decoder \<Rightarrow> error + Decoder" where
  "UnreadByte d =
     (case r_lastByte d of
        None \<Rightarrow> Inl ErrInvalidUnreadByte
      | Some b \<Rightarrow> Inr (d\<lparr>r_buf := b # r_buf d, r_lastByte := None\<rparr>))"

definition PeekCode :: "Decoder \<Rightarrow> error + (Code \<times> Decoder)" where
  "PeekCode d =
     (case ReadByte d of
        Inl err \<Rightarrow> Inl (Wrap err ''msgpack: failed to peek code'')
      | Inr (b, d1) \<Rightarrow>
          (case UnreadByte d1 of
             Inl err \<Rightarrow> Inl (Wrap err ''msgpack: failed to unread code'')
           | Inr d2 \<Rightarrow> Inr (b, d2)))"

section \<open>Go types and values\<close>

text \<open>
  The host types the codec is run on. Slices and maps are those the decoder
  produces (\<^verbatim>\<open>[]byte\<close>, \<^verbatim>\<open>[]interface{}\<close>, \<^verbatim>\<open>map[string]interface{}\<close>); a struct type
  has a name (empty when it is not a defined type) and its fields in order, each with
  its name, its package path (empty when the field is exported), the value of its
  \<^verbatim>\<open>msgpack\<close> tag and its type. Go's \<open>int\<close> and \<open>uint\<close> are 64 bits wide. Other defined
  types, arrays, channels, functions and complex numbers are outside the model.
\<close>

datatype gtype =
    TBool
  | TInt | TInt8 | TInt16 | TInt32 | TInt64
  | TUint | TUint8 | TUint16 | TUint32 | TUint64
  | TFloat32 | TFloat64
  | TString
  | TBytes
  | TSliceIface
  | TMapIface
  | TInterface
  | TStruct string "StructField list"
  | TPtr gtype
and StructField =
    StructField (Name: string) (PkgPath: string) (Tag: string) (Type: gtype)

text \<open>
  A value of one of these types. \<open>Invalid\<close> is the zero \<^verbatim>\<open>reflect.Value\<close>, which is
  also what a nil interface holds. Integers are the words of their bit patterns and
  floats the words of their IEEE-754 bit patterns. \<open>VNil t\<close> is the nil slice, map or
  pointer of type \<open>t\<close>. A map is its entries in the order its iteration visits
  them.
\<close>

datatype gval =
    Invalid
  | VBool bool
  | VInt "64 word" | VInt8 "8 word" | VInt16 "16 word" | VInt32 "32 word" | VInt64 "64 word"
  | VUint "64 word" | VUint8 "8 word" | VUint16 "16 word" | VUint32 "32 word" | VUint64 "64 word"
  | VFloat32 "32 word" | VFloat64 "64 word"
  | VString string
  | VBytes "byte list"
  | VSlice "gval list"
  | VMap "(string \<times> gval) list"
  | VStruct string "StructField list" "gval list"
  | VPtr gval
  | VNil gtype

fun TypeOf :: "gval \<Rightarrow> gtype option" where
  "TypeOf Invalid = None"
| "TypeOf (VBool _) = Some TBool"
| "TypeOf (VInt _) = Some TInt"
| "TypeOf (VInt8 _) = Some TInt8"
| "TypeOf (VInt16 _) = Some TInt16"
| "TypeOf (VInt32 _) = Some TInt32"
| "TypeOf (VInt64 _) = Some TInt64"
| "TypeOf (VUint _) = Some TUint"
| "TypeOf (VUint8 _) = Some TUint8"
| "TypeOf (VUint16 _) = Some TUint16"
| "TypeOf (VUint32 _) = Some TUint32"
| "TypeOf (VUint64 _) = Some TUint64"
| "TypeOf (VFloat32 _) = Some TFloat32"
| "TypeOf (VFloat64 _) = Some TFloat64"
| "TypeOf (VString _) = Some TString"
| "TypeOf (VBytes _) = Some TBytes"
| "TypeOf (VSlice _) = Some TSliceIface"
| "TypeOf (VMap _) = Some TMapIface"
| "TypeOf (VStruct n fs _) = Some (TStruct n fs)"
| "TypeOf (VPtr v) = (case TypeOf v of None \<Rightarrow> None | Some t \<Rightarrow> Some (TPtr t))"
| "TypeOf (VNil t) = Some t"

text \<open>\<^verbatim>\<open>reflect.Zero\<close>: the zero value of a type.\<close>

fun Zero :: "gtype \<Rightarrow> gval"
and Zero_fields :: "StructField list \<Rightarrow> gval list" where
  "Zero TBool = VBool False"
| "Zero TInt = VInt 0"
| "Zero TInt8 = VInt8 0"
| "Zero TInt16 = VInt16 0"
| "Zero TInt32 = VInt32 0"
| "Zero TInt64 = VInt64 0"
| "Zero TUint = VUint 0"
| "Zero TUint8 = VUint8 0"
| "Zero TUint16 = VUint16 0"
| "Zero TUint32 = VUint32 0"
| "Zero TUint64 = VUint64 0"
| "Zero TFloat32 = VFloat32 0"
| "Zero TFloat64 = VFloat64 0"
| "Zero TString = VString []"
| "Zero TBytes = VNil TBytes"
| "Zero TSliceIface = VNil TSliceIface"
| "Zero TMapIface = VNil TMapIface"
| "Zero TInterface = Invalid"
| "Zero (TStruct n fs) = VStruct n fs (Zero_fields fs)"
| "Zero (TPtr t) = VNil (TPtr t)"
| "Zero_fields [] = []"
| "Zero_fields (f # fs) = (case f of StructField _ _ _ t \<Rightarrow> Zero t # Zero_fields fs)"

text \<open>
  \<^verbatim>\<open>reflect.DeepEqual(field.Interface(), reflect.Zero(field.Type()).Interface())\<close> for
  a field of static type \<open>t\<close> holding \<open>v\<close>: a nil interface equals the zero value, any
  other interface content does not; a float compares with \<open>==\<close>, so both zeros are
  zero; a non-nil slice, map or pointer is never deeply equal to nil; a struct is
  compared field by field.
\<close>

fun DeepEqual_Zero :: "gtype \<Rightarrow> gval \<Rightarrow> bool"
and DeepEqual_Zero_fields :: "StructField list \<Rightarrow> gval list \<Rightarrow> bool" where
  "DeepEqual_Zero t v =
     (if t = TInterface then v = Invalid
      else case v of
          Invalid \<Rightarrow> True
        | VBool b \<Rightarrow> \<not> b
        | VInt i \<Rightarrow> i = 0 | VInt8 i \<Rightarrow> i = 0 | VInt16 i \<Rightarrow> i = 0
        | VInt32 i \<Rightarrow> i = 0 | VInt64 i \<Rightarrow> i = 0
        | VUint i \<Rightarrow> i = 0 | VUint8 i \<Rightarrow> i = 0 | VUint16 i \<Rightarrow> i = 0
        | VUint32 i \<Rightarrow> i = 0 | VUint64 i \<Rightarrow> i = 0
        | VFloat32 f \<Rightarrow> take_bit 31 f = 0
        | VFloat64 f \<Rightarrow> take_bit 63 f = 0
        | VString s \<Rightarrow> s = []
        | VBytes _ \<Rightarrow> False
        | VSlice _ \<Rightarrow> False
        | VMap _ \<Rightarrow> False
        | VStruct _ fs vs \<Rightarrow> DeepEqual_Zero_fields fs vs
        | VPtr _ \<Rightarrow> False
        | VNil _ \<Rightarrow> True)"
| "DeepEqual_Zero_fields (f # fs) (v # vs) =
     (case f of StructField _ _ _ t \<Rightarrow> DeepEqual_Zero t v \<and> DeepEqual_Zero_fields fs vs)"
| "DeepEqual_Zero_fields _ _ = True"

section \<open>Struct tags\<close>

text \<open>\<^verbatim>\<open>strings.Split(s, ",")\<close>: the pieces of \<open>s\<close> between the separators; never empty.\<close>

fun Split :: "string \<Rightarrow> char \<Rightarrow> string list" where
  "Split [] sep = [[]]"
| "Split (c # cs) sep =
     (if c = sep then [] # Split cs sep
      else (case Split cs sep of [] \<Rightarrow> [[c]] | p # ps \<Rightarrow> (c # p) # ps))"

definition parseMsgpackTag :: "StructField \<Rightarrow> string \<times> bool" where
  "parseMsgpackTag rv =
     (let name = Name rv; tag = Tag rv in
      if tag \<noteq> [] then
        (let l = Split tag (CHR '','') in
         (if length l > 0 \<and> l ! 0 \<noteq> [] then l ! 0 else name,
          length l > 1 \<and> l ! 1 = ''omitempty''))
      else (name, False))"

section \<open>The encoder\<close>

text \<open>
  What the encoder takes from its surroundings: the registry of extension types
  (\<open>isExtType\<close> looks a type up in \<open>extEncodeRegistry\<close>); the user's
  \<open>EncodeMsgpackExt\<close> method of a value, as the outcome of running it on a fresh
  scratch buffer (\<open>None\<close> when the value has no such method, so that the type
  assertion panics); the \<open>EncodeMsgpack\<close> method of a value that encodes itself
  (\<open>None\<close> when \<open>isEncodeMsgpacker\<close> is false); and \<open>MapBuilder\<close>'s \<open>Encode\<close>, which is
  not among the sources, run on the pairs added to the builder.
\<close>

record EncEnv =
  extEncodeRegistry :: "gtype \<Rightarrow> int option"
  EncodeMsgpackExt :: "gval \<Rightarrow> (error + byte list) option"
  EncodeMsgpack :: "gval \<Rightarrow> (Writer \<Rightarrow> error + Writer) option"
  MapBuilder_Encode :: "(string \<times> gval) list \<Rightarrow> Writer \<Rightarrow> error + Writer"

text \<open>
  Modelled from the spec: \<open>WriteArrayHeader\<close> and \<open>WriteMapHeader\<close> are not among the
  sources. Section 4.5 of the specification: FixArray (FixMap) when the length is
  below 16, Array16 (Map16) when it is at most 65535, Array32 (Map32) when it is at
  most 4294967295; a longer length fails.
\<close>

definition WriteArrayHeader :: "nat \<Rightarrow> Writer \<Rightarrow> error + Writer" where
  "WriteArrayHeader l w =
     (if l < 16 then WriteByte (FixArray0 + of_nat l) w
      else if l \<le> 65535 then WriteByteUint16 Array16 (of_nat l) w
      else if l \<le> 4294967295 then WriteByteUint32 Array32 (of_nat l) w
      else Inl (Errorf ''msgpack: array is too long''))"

definition WriteMapHeader :: "nat \<Rightarrow> Writer \<Rightarrow> error + Writer" where
  "WriteMapHeader l w =
     (if l < 16 then WriteByte (FixMap0 + of_nat l) w
      else if l \<le> 65535 then WriteByteUint16 Map16 (of_nat l) w
      else if l \<le> 4294967295 then WriteByteUint32 Map32 (of_nat l) w
      else Inl (Errorf ''msgpack: map is too long''))"

definition EncodeArrayHeader :: "nat \<Rightarrow> Writer \<Rightarrow> error + Writer" where
  "EncodeArrayHeader l w =
     (case WriteArrayHeader l w of
        Inl err \<Rightarrow> Inl (Wrap err ''msgpack: failed to write array header'')
      | Inr w' \<Rightarrow> Inr w')"

text \<open>
  Modelled from the spec: \<open>encodeArrayUint8\<close>, the fast path of \<open>EncodeArray\<close> for a
  slice of bytes, is not among the sources. By section 4.5 its output is that of the
  generic loop: each element as a Uint8 frame.
\<close>

fun encodeArrayUint8 :: "byte list \<Rightarrow> Writer \<Rightarrow> error + Writer" where
  "encodeArrayUint8 [] w = Inr w"
| "encodeArrayUint8 (b # bs) w =
     (case EncodeUint8 b w of
        Inl err \<Rightarrow> Inl (Wrap err ''msgpack: failed to write array payload'')
      | Inr w' \<Rightarrow> encodeArrayUint8 bs w')"

text \<open>
  The pairs \<open>EncodeStruct\<close> adds to the builder: a field is left out when it is not
  exported, when its name is \<open>-\<close>, or when it has \<open>omitempty\<close> and holds its zero
  value.
\<close>

fun EncodeStruct_pairs :: "StructField list \<Rightarrow> gval list \<Rightarrow> (string \<times> gval) list" where
  "EncodeStruct_pairs (ft # fts) (fval # fvals) =
     (if PkgPath ft \<noteq> [] then EncodeStruct_pairs fts fvals
      else
        (let (name, omitempty) = parseMsgpackTag ft in
         if name = ''-'' then EncodeStruct_pairs fts fvals
         else if omitempty \<and> DeepEqual_Zero (Type ft) fval then EncodeStruct_pairs fts fvals
         else (name, fval) # EncodeStruct_pairs fts fvals))"
| "EncodeStruct_pairs _ _ = []"

definition EncodeStruct :: "EncEnv \<Rightarrow> gval \<Rightarrow> Writer \<Rightarrow> error + Writer" where
  "EncodeStruct env v w =
     (case v of
        VStruct n fts fvals \<Rightarrow>
          (case MapBuilder_Encode env (EncodeStruct_pairs fts fvals) w of
             Inl err \<Rightarrow> Inl (Wrap err ''msgpack: failed to write map payload'')
           | Inr w' \<Rightarrow> Inr w')
      | _ \<Rightarrow> Inl (Errorf ''msgpack: argument to EncodeStruct must be a struct (not %s)''))"

text \<open>
  \<open>Encode\<close>: the type switch on the static type first; then the loop \<open>INDIRECT\<close>, which
  strips pointers and stops at a nil, at a registered extension type or at a value that
  encodes itself; then the switch on the kind. A pointer to an interface is taken as
  the pointer to what the interface holds. The keys of a map in this model are
  strings, so the key check of \<open>EncodeMap\<close> passes; its call of \<open>WriteMapHeader\<close> drops
  the error.
\<close>

function (sequential) Encode :: "EncEnv \<Rightarrow> gval \<Rightarrow> Writer \<Rightarrow> error + Writer"
and INDIRECT :: "EncEnv \<Rightarrow> gval \<Rightarrow> Writer \<Rightarrow> error + Writer"
and EncodeArray :: "EncEnv \<Rightarrow> gval \<Rightarrow> Writer \<Rightarrow> error + Writer"
and EncodeArray_loop :: "EncEnv \<Rightarrow> gval list \<Rightarrow> Writer \<Rightarrow> error + Writer"
and EncodeMap :: "EncEnv \<Rightarrow> gval \<Rightarrow> Writer \<Rightarrow> error + Writer"
and EncodeMap_loop :: "EncEnv \<Rightarrow> (string \<times> gval) list \<Rightarrow> Writer \<Rightarrow> error + Writer"
where
  "Encode env v w =
     (case v of
        VString s \<Rightarrow> EncodeString s w
      | VBytes b \<Rightarrow> EncodeBytes b w
      | VNil TBytes \<Rightarrow> EncodeBytes [] w
      | VBool b \<Rightarrow> EncodeBool b w
      | VFloat32 f \<Rightarrow> EncodeFloat32 f w
      | VFloat64 f \<Rightarrow> EncodeFloat64 f w
      | VUint i \<Rightarrow> EncodeUint64 i w
      | VUint8 i \<Rightarrow> EncodeUint8 i w
      | VUint16 i \<Rightarrow> EncodeUint16 i w
      | VUint32 i \<Rightarrow> EncodeUint32 i w
      | VUint64 i \<Rightarrow> EncodeUint64 i w
      | VInt i \<Rightarrow> EncodeInt64 i w
      | VInt8 i \<Rightarrow> EncodeInt8 i w
      | VInt16 i \<Rightarrow> EncodeInt16 i w
      | VInt32 i \<Rightarrow> EncodeInt32 i w
      | VInt64 i \<Rightarrow> EncodeInt64 i w
      | _ \<Rightarrow> INDIRECT env v w)"
| "INDIRECT env v w =
     (case TypeOf v of
        None \<Rightarrow> EncodeNil w
      | Some t \<Rightarrow>
          (case extEncodeRegistry env t of
             Some typ \<Rightarrow>
               (case EncodeMsgpackExt env v of
                  None \<Rightarrow> Inl (Panic ''interface conversion: not an EncodeMsgpackExter'')
                | Some user \<Rightarrow> EncodeExt typ user w)
           | None \<Rightarrow>
               (case EncodeMsgpack env v of
                  Some f \<Rightarrow> f w
                | None \<Rightarrow>
                    (case v of
                       VPtr x \<Rightarrow> INDIRECT env x w
                     | VNil (TPtr _) \<Rightarrow> EncodeNil w
                     | VSlice _ \<Rightarrow> EncodeArray env v w
                     | VBytes _ \<Rightarrow> EncodeArray env v w
                     | VNil TSliceIface \<Rightarrow> EncodeArray env v w
                     | VNil TBytes \<Rightarrow> EncodeArray env v w
                     | VMap _ \<Rightarrow> EncodeMap env v w
                     | VNil TMapIface \<Rightarrow> EncodeMap env v w
                     | VStruct _ _ _ \<Rightarrow> EncodeStruct env v w
                     | _ \<Rightarrow> Inl (Errorf ''msgpack: encode unimplemented for type %s'')))))"
| "EncodeArray env v w =
     (case v of
        VSlice xs \<Rightarrow>
          (case EncodeArrayHeader (length xs) w of
             Inl err \<Rightarrow> Inl err
           | Inr w' \<Rightarrow> EncodeArray_loop env xs w')
      | VNil TSliceIface \<Rightarrow> EncodeArrayHeader 0 w
      | VBytes bs \<Rightarrow>
          (case EncodeArrayHeader (length bs) w of
             Inl err \<Rightarrow> Inl err
           | Inr w' \<Rightarrow> encodeArrayUint8 bs w')
      | VNil TBytes \<Rightarrow> EncodeArrayHeader 0 w
      | _ \<Rightarrow> Inl (Errorf ''msgpack: argument must be an array or a slice''))"
| "EncodeArray_loop env [] w = Inr w"
| "EncodeArray_loop env (x # xs) w =
     (case Encode env x w of
        Inl err \<Rightarrow> Inl (Wrap err ''msgpack: failed to write array payload'')
      | Inr w' \<Rightarrow> EncodeArray_loop env xs w')"
| "EncodeMap env v w =
     (case v of
        VMap kvs \<Rightarrow> EncodeMap_loop env kvs (discard_err (WriteMapHeader (length kvs)) w)
      | VNil TMapIface \<Rightarrow> Inr (discard_err (WriteMapHeader 0) w)
      | _ \<Rightarrow> Inl (Errorf ''msgpack: argument to EncodeMap must be a map (not %s)''))"
| "EncodeMap_loop env [] w = Inr w"
| "EncodeMap_loop env ((key, x) # kvs) w =
     (case EncodeString key w of
        Inl err \<Rightarrow> Inl (Wrap err ''failed to encode map key'')
      | Inr w1 \<Rightarrow>
          (case Encode env x w1 of
             Inl err \<Rightarrow> Inl (Wrap err ''failed to encode map value'')
           | Inr w2 \<Rightarrow> EncodeMap_loop env kvs w2))"
  by pat_completeness auto

termination
  by (relation "measure (\<lambda>x. case x of
        Inl (Inl (env, v, w)) \<Rightarrow> 4 * size v + 3
      | Inl (Inr (Inl (env, v, w))) \<Rightarrow> 4 * size v + 2
      | Inl (Inr (Inr (env, v, w))) \<Rightarrow> 4 * size v + 1
      | Inr (Inl (env, xs, w)) \<Rightarrow> 4 * size_list size xs + 4
      | Inr (Inr (Inl (env, v, w))) \<Rightarrow> 4 * size v + 1
      | Inr (Inr (Inr (env, kvs, w))) \<Rightarrow> 4 * size_list (size_prod (\<lambda>_. 0) size) kvs + 4)")
    auto


section \<open>Properties\<close>

subsection \<open>Big-endian lengths and the FixStr tag\<close>











subsection \<open>The string encoder\<close>



subsection \<open>The extension encoder\<close>



subsection \<open>Peeking at the next tag\<close>

text \<open>
  Claim C8. When at least one byte is available, \<open>PeekCode\<close> succeeds and returns the
  first byte; a second \<open>PeekCode\<close> succeeds and returns the same byte; the unread
  bytes are as before, and the next \<open>ReadByte\<close> returns that byte and leaves the
  rest.
\<close>

theorem PeekCode_idempotent:
  assumes "r_buf d = b # bs"
  shows "\<exists>d'. PeekCode d = Inr (b, d') \<and> PeekCode d' = Inr (b, d')
           \<and> r_buf d' = r_buf d
           \<and> (\<exists>d''. ReadByte d' = Inr (b, d'') \<and> r_buf d'' = bs)"
  using assms
  by (simp add: PeekCode_def ReadByte_def UnreadByte_def)

theorem PeekCode_idempotent_witness:
  "\<exists>d'. PeekCode \<lparr>r_buf = [0xc3, 0xc0], r_lastByte = None\<rparr> = Inr (0xc3, d')
        \<and> PeekCode d' = Inr (0xc3, d')
        \<and> r_buf d' = [0xc3, 0xc0]
        \<and> (\<exists>d''. ReadByte d' = Inr (0xc3, d'') \<and> r_buf d'' = [0xc0])"
  using PeekCode_idempotent [of "\<lparr>r_buf = [0xc3, 0xc0], r_lastByte = None\<rparr>" "0xc3" "[0xc0]"]
  by simp

end
